theory Spec2Isabelle
  imports Main
begin

section \<open>Strings\<close>

text \<open>
  Go strings are byte sequences; they are modelled as \<open>string\<close> (a list of 8-bit
  characters). \<open>HasPrefix\<close> and \<open>Index\<close> are \<open>strings.HasPrefix\<close> and \<open>strings.Index\<close>
  of the Go standard library: \<open>Index s substr\<close> is the position of the first
  occurrence of \<open>substr\<close> in \<open>s\<close>, and \<open>-1\<close> when there is none.
\<close>

definition HasPrefix :: "string \<Rightarrow> string \<Rightarrow> bool" where
  "HasPrefix s pre = (take (length pre) s = pre)"

fun Index :: "string \<Rightarrow> string \<Rightarrow> int" where
  "Index [] substr = (if substr = [] then 0 else - 1)"
| "Index (c # s) substr =
     (if HasPrefix (c # s) substr then 0
      else (let r = Index s substr in if r < 0 then - 1 else r + 1))"

text \<open>
  \<open>strconv.Itoa\<close>: the decimal text of an integer, with a minus sign when negative. A Go
  \<open>int\<close> is an \<open>int\<close> here: the code does no arithmetic on a port, it compares it with
  zero and prints it.
\<close>

definition digitChar :: "nat \<Rightarrow> char" where
  "digitChar d = ''0123456789'' ! d"

fun natToDecimal :: "nat \<Rightarrow> string" where
  "natToDecimal n =
     (if n < 10 then [digitChar n] else natToDecimal (n div 10) @ [digitChar (n mod 10)])"

declare natToDecimal.simps [simp del]

definition Itoa :: "int \<Rightarrow> string" where
  "Itoa i = (if i < 0 then CHR ''-'' # natToDecimal (nat (- i)) else natToDecimal (nat i))"

text \<open>\<open>strings.Join\<close>, used to state what the string builder of \<open>composeOptions\<close> holds.\<close>

fun Join :: "string list \<Rightarrow> string \<Rightarrow> string" where
  "Join [] sep = []"
| "Join [x] sep = x"
| "Join (x # y # ys) sep = x @ sep @ Join (y # ys) sep"


section \<open>Parameter bundles of the commons library\<close>

text \<open>
  Modelled from the spec: the types \<open>ConfigParams\<close>, \<open>ConnectionParams\<close> and
  \<open>CredentialParams\<close> and their accessors belong to the pip-services commons and
  components libraries, which are not part of the sources under verification. The spec
  describes all three as mappings of string keys to string values; a bundle is a map
  \<open>string \<rightharpoonup> string\<close>. \<open>ConnectionParams\<close> and \<open>CredentialParams\<close> embed a
  \<open>ConfigParams\<close>, so \<open>connection.ConfigParams\<close> is the bundle itself.
\<close>

type_synonym ConfigParams = "string \<rightharpoonup> string"
type_synonym ConnectionParams = ConfigParams
type_synonym CredentialParams = ConfigParams

definition NewEmptyConfigParams :: ConfigParams where
  "NewEmptyConfigParams = Map.empty"

definition NewEmptyCredentialParams :: CredentialParams where
  "NewEmptyCredentialParams = Map.empty"

text \<open>
  Modelled from the spec: \<open>options.SetDefaults(defaults)\<close> returns a new bundle with the
  keys of both, in which "existing output keys win over a later connection's same-named
  key": a key of \<open>defaults\<close> is taken only where \<open>options\<close> has none.
\<close>

definition SetDefaults :: "ConfigParams \<Rightarrow> ConfigParams \<Rightarrow> ConfigParams" where
  "SetDefaults options defaults = defaults ++ options"

text \<open>Modelled from the spec: \<open>options.SetAsObject(key, value)\<close> stores a string under a key.\<close>

definition SetAsObject :: "ConfigParams \<Rightarrow> string \<Rightarrow> string \<Rightarrow> ConfigParams" where
  "SetAsObject options key v = options(key \<mapsto> v)"

text \<open>
  Modelled from the spec: reading a key as a string gives the empty string when the key
  is absent, or the given default in the \<open>WithDefault\<close> form.
\<close>

definition GetAsString :: "ConfigParams \<Rightarrow> string \<Rightarrow> string" where
  "GetAsString c key = (case c key of None \<Rightarrow> [] | Some v \<Rightarrow> v)"

definition GetAsStringWithDefault :: "ConfigParams \<Rightarrow> string \<Rightarrow> string \<Rightarrow> string" where
  "GetAsStringWithDefault c key defaultValue =
     (case c key of None \<Rightarrow> defaultValue | Some v \<Rightarrow> v)"

text \<open>
  Modelled from the spec: reading a key as an integer converts its text; an absent key,
  or a text that is no decimal integer, gives the default. The conversion accepts an
  optional minus sign followed by one or more decimal digits.
\<close>

definition digitValue :: "char \<Rightarrow> nat option" where
  "digitValue c =
     (let b = (of_char c :: nat)
      in if of_char CHR ''0'' \<le> b \<and> b \<le> of_char CHR ''9''
         then Some (b - of_char CHR ''0'') else None)"

fun parseDigits :: "string \<Rightarrow> nat \<Rightarrow> nat option" where
  "parseDigits [] acc = Some acc"
| "parseDigits (c # cs) acc =
     (case digitValue c of None \<Rightarrow> None | Some d \<Rightarrow> parseDigits cs (10 * acc + d))"

definition ToNullableInteger :: "string \<Rightarrow> int option" where
  "ToNullableInteger s =
     (case s of
        [] \<Rightarrow> None
      | c # cs \<Rightarrow>
          if c = CHR ''-''
          then (if cs = [] then None else map_option (\<lambda>n. - int n) (parseDigits cs 0))
          else map_option int (parseDigits s 0))"

definition GetAsIntegerWithDefault :: "ConfigParams \<Rightarrow> string \<Rightarrow> int \<Rightarrow> int" where
  "GetAsIntegerWithDefault c key defaultValue =
     (case c key of
        None \<Rightarrow> defaultValue
      | Some v \<Rightarrow> (case ToNullableInteger v of None \<Rightarrow> defaultValue | Some i \<Rightarrow> i))"

text \<open>
  Modelled from the spec: a connection "semantically exposes \<open>uri\<close> (full connection
  string, optional), \<open>protocol\<close> (defaults to tcp), \<open>host\<close>, \<open>port\<close> (defaults to 9092)".
\<close>

definition Uri :: "ConnectionParams \<Rightarrow> string" where
  "Uri c = GetAsString c ''uri''"

definition Host :: "ConnectionParams \<Rightarrow> string" where
  "Host c = GetAsString c ''host''"

definition ProtocolWithDefault :: "ConnectionParams \<Rightarrow> string \<Rightarrow> string" where
  "ProtocolWithDefault c defaultValue = GetAsStringWithDefault c ''protocol'' defaultValue"

definition PortWithDefault :: "ConnectionParams \<Rightarrow> int \<Rightarrow> int" where
  "PortWithDefault c defaultValue = GetAsIntegerWithDefault c ''port'' defaultValue"


section \<open>Errors\<close>

text \<open>
  \<open>ConfigError\<close> is what \<open>cerr.NewConfigError(correlationId, code, message)\<close> builds;
  \<open>ExternalError\<close> stands for an error of a sub-resolver, which the resolver passes on
  without looking into it.
\<close>

datatype error =
    ConfigError (correlation_id: string) (code: string) (message: string)
  | ExternalError string

definition NewConfigError :: "string \<Rightarrow> string \<Rightarrow> string \<Rightarrow> error" where
  "NewConfigError correlationId c msg = ConfigError correlationId c msg"


section \<open>KafkaConnectionResolver\<close>

text \<open>
  The resolver holds its two sub-resolvers. Of each only the one method that \<open>Resolve\<close>
  calls matters: \<open>ConnectionResolver.ResolveAll\<close> and \<open>CredentialResolver.Lookup\<close>, each a
  function from the correlation id to a Go result pair. A pointer that may be nil is an
  \<open>option\<close>; a Go pair \<open>(value, err)\<close> is a pair of options.
\<close>

record KafkaConnectionResolver =
  ResolveAll :: "string \<Rightarrow> ConnectionParams option list \<times> error option"
  Lookup :: "string \<Rightarrow> CredentialParams option \<times> error option"

subsection \<open>validateConnection\<close>

definition validateConnection :: "string \<Rightarrow> ConnectionParams option \<Rightarrow> error option" where
  "validateConnection correlationId connection =
     (case connection of
        None \<Rightarrow> Some (NewConfigError correlationId ''NO_CONNECTION'' ''Kafka connection is not set'')
      | Some conn \<Rightarrow>
          (let uri = Uri conn in
           if uri \<noteq> [] then None
           else
             (let protocol = ProtocolWithDefault conn ''tcp'' in
              if protocol = [] then
                Some (NewConfigError correlationId ''NO_PROTOCOL'' ''Connection protocol is not set'')
              else if protocol \<noteq> ''tcp'' then
                Some (NewConfigError correlationId ''UNSUPPORTED_PROTOCOL''
                        (''The protocol '' @ protocol @ '' is not supported''))
              else
                (let host = Host conn in
                 if host = [] then
                   Some (NewConfigError correlationId ''NO_HOST'' ''Connection host is not set'')
                 else
                   (let port = PortWithDefault conn 9092 in
                    if port = 0 then
                      Some (NewConfigError correlationId ''NO_PORT'' ''Connection port is not set'')
                    else None)))))"

subsection \<open>composeOptions\<close>

text \<open>
  The two rewritings of a connection's URI inside the loop: \<open>uri[pos+3:]\<close> when
  \<open>"://"\<close> is found at \<open>pos > 0\<close>, then \<open>uri[:pos]\<close> when \<open>"?"\<close> is found at \<open>pos > 0\<close>
  in what is left.
\<close>

definition stripUri :: "string \<Rightarrow> string" where
  "stripUri uri0 =
     (let pos = Index uri0 ''://'';
          uri1 = (if pos > 0 then drop (nat (pos + 3)) uri0 else uri0);
          pos' = Index uri1 ''?'';
          uri2 = (if pos' > 0 then take (nat pos') uri1 else uri1)
      in uri2)"

text \<open>
  The loop over the connections, with its three variables \<open>options\<close>, \<open>globalUri\<close> and
  \<open>uriBuilder\<close> passed along. Reading \<open>connection.ConfigParams\<close> of a nil connection is a
  nil-pointer panic: the result \<open>None\<close>.
\<close>

fun composeLoop ::
  "ConnectionParams option list \<Rightarrow> ConfigParams \<Rightarrow> string \<Rightarrow> string
     \<Rightarrow> (ConfigParams \<times> string \<times> string) option" where
  "composeLoop [] options globalUri uriBuilder = Some (options, globalUri, uriBuilder)"
| "composeLoop (None # connections) options globalUri uriBuilder = None"
| "composeLoop (Some connection # connections) options globalUri uriBuilder =
     (let options = SetDefaults options connection in
      if globalUri \<noteq> [] then composeLoop connections options globalUri uriBuilder
      else
        (let uri = Uri connection in
         if uri \<noteq> [] then composeLoop connections options (stripUri uri) uriBuilder
         else
           (let uriBuilder = (if length uriBuilder > 0 then uriBuilder @ '', '' else uriBuilder);
                host = Host connection;
                uriBuilder = uriBuilder @ host;
                port = PortWithDefault connection 9092;
                uriBuilder = uriBuilder @ '':'';
                uriBuilder = uriBuilder @ Itoa port
            in composeLoop connections options globalUri uriBuilder)))"

definition composeOptions ::
  "ConnectionParams option list \<Rightarrow> CredentialParams option \<Rightarrow> ConfigParams option" where
  "composeOptions connections credential =
     (let credential = (case credential of None \<Rightarrow> NewEmptyCredentialParams | Some c \<Rightarrow> c);
          options = SetDefaults NewEmptyConfigParams credential
      in case composeLoop connections options [] [] of
           None \<Rightarrow> None
         | Some (options, globalUri, uriBuilder) \<Rightarrow>
             (if globalUri \<noteq> [] then Some (SetAsObject options ''uri'' globalUri)
              else Some (SetAsObject options ''uri'' uriBuilder)))"

subsection \<open>Resolve and Compose\<close>

text \<open>The validation loop of both: the first error ends it.\<close>

fun validateConnections :: "string \<Rightarrow> ConnectionParams option list \<Rightarrow> error option" where
  "validateConnections correlationId [] = None"
| "validateConnections correlationId (connection # connections) =
     (case validateConnection correlationId connection of
        Some err \<Rightarrow> Some err
      | None \<Rightarrow> validateConnections correlationId connections)"

text \<open>
  Both return the Go pair \<open>(options, err)\<close>, each component nil (\<open>None\<close>) or not; the
  outer \<open>None\<close> is a panic inside \<open>composeOptions\<close>.
\<close>

definition Resolve ::
  "KafkaConnectionResolver \<Rightarrow> string \<Rightarrow> (ConfigParams option \<times> error option) option" where
  "Resolve c correlationId =
     (case ResolveAll c correlationId of
        (connections, Some err) \<Rightarrow> Some (None, Some err)
      | (connections, None) \<Rightarrow>
          (case Lookup c correlationId of
             (credential, Some err) \<Rightarrow> Some (None, Some err)
           | (credential, None) \<Rightarrow>
               (case validateConnections correlationId connections of
                  Some err \<Rightarrow> Some (None, Some err)
                | None \<Rightarrow>
                    (case composeOptions connections credential of
                       None \<Rightarrow> None
                     | Some options \<Rightarrow> Some (Some options, None)))))"

definition Compose ::
  "string \<Rightarrow> ConnectionParams option list \<Rightarrow> CredentialParams option
     \<Rightarrow> (ConfigParams option \<times> error option) option" where
  "Compose correlationId connections credential =
     (case validateConnections correlationId connections of
        Some err \<Rightarrow> Some (None, Some err)
      | None \<Rightarrow>
          (case composeOptions connections credential of
             None \<Rightarrow> None
           | Some options \<Rightarrow> Some (Some options, None)))"


section \<open>Notions used to state the properties\<close>

text \<open>
  The token that one connection without a URI adds to the string builder, and the whole
  update of the builder by such a connection (separator first, unless the builder is
  still empty).
\<close>

definition hostPort :: "ConnectionParams \<Rightarrow> string" where
  "hostPort c = Host c @ '':'' @ Itoa (PortWithDefault c 9092)"

definition appendToken :: "string \<Rightarrow> ConnectionParams \<Rightarrow> string" where
  "appendToken b c = (if b \<noteq> [] then b @ '', '' else b) @ hostPort c"

text \<open>The options before the loop: the fields of the credential, or none for a nil credential.\<close>

definition credentialOptions :: "CredentialParams option \<Rightarrow> ConfigParams" where
  "credentialOptions credential =
     SetDefaults NewEmptyConfigParams
       (case credential of None \<Rightarrow> NewEmptyCredentialParams | Some c \<Rightarrow> c)"

text \<open>
  The value that ends up under the key \<open>uri\<close>: the rewritten URI of the first connection
  whose rewritten URI is not empty; when there is none, the tokens of the connections
  without a URI, joined.
\<close>

definition finalUri :: "ConnectionParams list \<Rightarrow> string" where
  "finalUri cs =
     (case find (\<lambda>c. stripUri (Uri c) \<noteq> []) cs of
        Some c \<Rightarrow> stripUri (Uri c)
      | None \<Rightarrow> Join (map hostPort (filter (\<lambda>c. Uri c = []) cs)) '', '')"


text \<open>
  The rewriting of a URI as the spec words it, for comparison with \<open>stripUri\<close>: the
  leading scheme segment, "text up to and including the first \<open>://\<close>", and the trailing
  query segment, "text from the first \<open>?\<close> onward", are removed wherever the marker
  is found.
\<close>

definition stripSchemeAndQuery :: "string \<Rightarrow> string" where
  "stripSchemeAndQuery uri0 =
     (let pos = Index uri0 ''://'';
          uri1 = (if pos \<ge> 0 then drop (nat (pos + 3)) uri0 else uri0);
          pos' = Index uri1 ''?'';
          uri2 = (if pos' \<ge> 0 then take (nat pos') uri1 else uri1)
      in uri2)"


section \<open>Properties of the string functions\<close>

lemma Index_HasPrefix: "HasPrefix s sub \<Longrightarrow> Index s sub = 0"
  by (cases s) (auto simp: HasPrefix_def)

lemma Index_lower: "- 1 \<le> Index s sub"
  by (induction s) (auto simp: Let_def)

lemma Index_zero_iff: "Index s sub = 0 \<longleftrightarrow> HasPrefix s sub"
proof (cases s)
  case Nil
  then show ?thesis by (auto simp: HasPrefix_def)
next
  case (Cons c t)
  have "- 1 \<le> Index t sub" by (rule Index_lower)
  then show ?thesis using Cons by (auto simp: Let_def)
qed

lemma Index_found:
  "0 \<le> Index s sub \<Longrightarrow> HasPrefix (drop (nat (Index s sub)) s) sub"
proof (induction s)
  case Nil
  then show ?case by (simp add: HasPrefix_def split: if_splits)
next
  case (Cons c s)
  show ?case
  proof (cases "HasPrefix (c # s) sub")
    case True
    then show ?thesis by simp
  next
    case False
    with Cons.prems have nonneg: "0 \<le> Index s sub"
      by (simp add: Let_def split: if_splits)
    with False have "Index (c # s) sub = Index s sub + 1"
      by (simp add: Let_def)
    moreover have "nat (Index s sub + 1) = Suc (nat (Index s sub))"
      using nonneg by simp
    ultimately show ?thesis using Cons.IH [OF nonneg] by simp
  qed
qed

lemma Index_first:
  "0 \<le> Index s sub \<Longrightarrow> k < nat (Index s sub) \<Longrightarrow> \<not> HasPrefix (drop k s) sub"
proof (induction s arbitrary: k)
  case Nil
  then show ?case by (simp split: if_splits)
next
  case (Cons c s)
  show ?case
  proof (cases "HasPrefix (c # s) sub")
    case True
    with Cons.prems show ?thesis by simp
  next
    case False
    with Cons.prems have nonneg: "0 \<le> Index s sub"
      by (simp add: Let_def split: if_splits)
    with False have eq: "Index (c # s) sub = Index s sub + 1"
      by (simp add: Let_def)
    show ?thesis
    proof (cases k)
      case 0
      with False show ?thesis by simp
    next
      case (Suc j)
      with Cons.prems eq nonneg have "j < nat (Index s sub)" by simp
      from Cons.IH [OF nonneg this] Suc show ?thesis by simp
    qed
  qed
qed

lemma Index_none:
  "Index s sub < 0 \<Longrightarrow> \<not> HasPrefix (drop k s) sub"
proof (induction s arbitrary: k)
  case Nil
  then show ?case by (simp add: HasPrefix_def split: if_splits)
next
  case (Cons c s)
  from Cons.prems have np: "\<not> HasPrefix (c # s) sub" and neg: "Index s sub < 0"
    by (auto simp: Let_def split: if_splits)
  show ?case
  proof (cases k)
    case 0
    with np show ?thesis by simp
  next
    case (Suc j)
    with Cons.IH [OF neg] show ?thesis by simp
  qed
qed

lemma HasPrefix_decompose: "HasPrefix s pre \<Longrightarrow> s = pre @ drop (length pre) s"
  unfolding HasPrefix_def by (metis append_take_drop_id)

lemma HasPrefix_nonempty: "HasPrefix s pre \<Longrightarrow> pre \<noteq> [] \<Longrightarrow> s \<noteq> []"
  by (auto simp: HasPrefix_def)

lemma Index_query_after_marker:
  "Index (''://'' @ r) ''?'' = (if Index r ''?'' < 0 then - 1 else Index r ''?'' + 3)"
  by (simp add: HasPrefix_def Let_def)

lemma stripUri_Nil: "stripUri [] = []"
  by (simp add: stripUri_def)

lemma stripUri_no_scheme:
  "Index uri ''://'' \<le> 0 \<Longrightarrow>
   stripUri uri = (if Index uri ''?'' > 0 then take (nat (Index uri ''?'')) uri else uri)"
  by (simp add: stripUri_def Let_def)

lemma stripUri_keeps_marker:
  assumes "HasPrefix uri ''://''"
  shows "HasPrefix (stripUri uri) ''://''"
proof -
  from assms obtain r where uri: "uri = ''://'' @ r"
    using HasPrefix_decompose by blast
  from assms have "Index uri ''://'' = 0" by (rule Index_HasPrefix)
  then have s: "stripUri uri =
      (if Index uri ''?'' > 0 then take (nat (Index uri ''?'')) uri else uri)"
    by (simp add: stripUri_no_scheme)
  have q: "Index uri ''?'' = (if Index r ''?'' < 0 then - 1 else Index r ''?'' + 3)"
    unfolding uri by (rule Index_query_after_marker)
  show ?thesis
  proof (cases "Index r ''?'' < 0")
    case True
    with q have "Index uri ''?'' = - 1" by simp
    with s have "stripUri uri = uri" by simp
    with assms show ?thesis by simp
  next
    case False
    with q have "Index uri ''?'' = Index r ''?'' + 3" by simp
    moreover from False
    have "nat (Index r ''?'' + 3) = Suc (Suc (Suc (nat (Index r ''?''))))" by simp
    ultimately have "stripUri uri = take (Suc (Suc (Suc (nat (Index r ''?''))))) uri"
      using s False by simp
    then have "stripUri uri = ''://'' @ take (nat (Index r ''?'')) r"
      unfolding uri by simp
    then show ?thesis by (simp add: HasPrefix_def)
  qed
qed

lemma stripUri_query_first:
  assumes "HasPrefix uri ''?''" and "Index uri ''://'' < 0"
  shows "stripUri uri = uri"
proof -
  from assms(1) have "Index uri ''?'' = 0" by (rule Index_HasPrefix)
  with assms(2) show ?thesis by (simp add: stripUri_no_scheme)
qed

lemma Join_nonempty: "ts \<noteq> [] \<Longrightarrow> \<forall>t\<in>set ts. t \<noteq> [] \<Longrightarrow> Join ts sep \<noteq> []"
  by (induction ts sep rule: Join.induct) auto

lemma Join_snoc:
  "ts \<noteq> [] \<Longrightarrow> Join (ts @ [t]) sep = Join ts sep @ sep @ t"
  by (induction ts sep rule: Join.induct) auto


section \<open>Properties of the parameter bundles\<close>

lemma dom_SetDefaults: "dom (SetDefaults options defaults) = dom options \<union> dom defaults"
  by (auto simp: SetDefaults_def)

lemma dom_foldl_SetDefaults:
  "dom (foldl SetDefaults options cs) = dom options \<union> (\<Union>c\<in>set cs. dom c)"
  by (induction cs arbitrary: options) (auto simp: dom_SetDefaults)

lemma SetDefaults_keeps: "options k = Some v \<Longrightarrow> SetDefaults options defaults k = Some v"
  by (simp add: SetDefaults_def map_add_def)

lemma foldl_SetDefaults_keeps:
  "options k = Some v \<Longrightarrow> foldl SetDefaults options cs k = Some v"
  by (induction cs arbitrary: options) (simp_all add: SetDefaults_keeps)


section \<open>The loop of composeOptions\<close>

lemma hostPort_nonempty: "hostPort c \<noteq> []"
  by (simp add: hostPort_def)

lemma appendToken_nonempty: "appendToken b c \<noteq> []"
  by (simp add: appendToken_def hostPort_nonempty)

lemma foldl_appendToken_Join:
  "foldl appendToken [] cs = Join (map hostPort cs) '', ''"
proof (induction cs rule: rev_induct)
  case Nil
  show ?case by simp
next
  case (snoc c cs)
  show ?case
  proof (cases "cs = []")
    case True
    then show ?thesis by (simp add: appendToken_def)
  next
    case False
    then have "Join (map hostPort cs) '', '' \<noteq> []"
      by (intro Join_nonempty) (auto simp: hostPort_nonempty)
    with snoc False show ?thesis
      by (simp add: appendToken_def Join_snoc)
  qed
qed

lemma composeLoop_global:
  "globalUri \<noteq> [] \<Longrightarrow>
   composeLoop (map Some cs) options globalUri uriBuilder =
     Some (foldl SetDefaults options cs, globalUri, uriBuilder)"
  by (induction cs arbitrary: options) simp_all

lemma composeLoop_step_token:
  "Uri c = [] \<Longrightarrow>
   composeLoop (Some c # rest) options [] uriBuilder =
     composeLoop rest (SetDefaults options c) [] (appendToken uriBuilder c)"
  by (simp add: appendToken_def hostPort_def)

lemma composeLoop_step_uri:
  "Uri c \<noteq> [] \<Longrightarrow>
   composeLoop (Some c # rest) options [] uriBuilder =
     composeLoop rest (SetDefaults options c) (stripUri (Uri c)) uriBuilder"
  by simp

lemma composeLoop_scan:
  "composeLoop (map Some cs) options [] uriBuilder =
     Some (foldl SetDefaults options cs,
           (case find (\<lambda>c. stripUri (Uri c) \<noteq> []) cs of
              None \<Rightarrow> [] | Some c \<Rightarrow> stripUri (Uri c)),
           foldl appendToken uriBuilder
             (filter (\<lambda>c. Uri c = []) (takeWhile (\<lambda>c. stripUri (Uri c) = []) cs)))"
proof (induction cs arbitrary: options uriBuilder)
  case Nil
  show ?case by simp
next
  case (Cons c cs)
  show ?case
  proof (cases "Uri c = []")
    case True
    then have "stripUri (Uri c) = []" by (simp add: stripUri_Nil)
    with True Cons.IH show ?thesis
      by (simp only: list.map composeLoop_step_token) simp
  next
    case False
    show ?thesis
    proof (cases "stripUri (Uri c) = []")
      case True
      with False Cons.IH show ?thesis
        by (simp only: list.map composeLoop_step_uri) simp
    next
      case nonempty: False
      with False show ?thesis
        by (simp add: composeLoop_global del: composeLoop.simps add: composeLoop_step_uri)
    qed
  qed
qed

lemma composeLoop_nil_entry:
  "None \<in> set connections \<Longrightarrow> composeLoop connections options globalUri uriBuilder = None"
  by (induction connections options globalUri uriBuilder rule: composeLoop.induct)
     (auto simp: Let_def)

lemma find_first_split:
  "\<forall>p\<in>set pre. \<not> P p \<Longrightarrow> P c \<Longrightarrow> find P (pre @ c # post) = Some c"
  by (induction pre) auto

lemma takeWhile_first_split:
  "\<forall>p\<in>set pre. Q p \<Longrightarrow> \<not> Q c \<Longrightarrow> takeWhile Q (pre @ c # post) = pre"
  by (induction pre) auto

lemma composeOptions_eq:
  "composeOptions (map Some cs) credential =
     Some (SetAsObject (foldl SetDefaults (credentialOptions credential) cs) ''uri'' (finalUri cs))"
proof (cases "find (\<lambda>c. stripUri (Uri c) \<noteq> []) cs")
  case None
  then have "\<forall>c\<in>set cs. stripUri (Uri c) = []"
    by (auto simp: find_None_iff)
  then have tw: "takeWhile (\<lambda>c. stripUri (Uri c) = []) cs = cs"
    by (simp add: takeWhile_eq_all_conv)
  have "composeLoop (map Some cs) (credentialOptions credential) [] [] =
          Some (foldl SetDefaults (credentialOptions credential) cs, [],
                Join (map hostPort (filter (\<lambda>c. Uri c = []) cs)) '', '')"
    unfolding composeLoop_scan None tw by (simp add: foldl_appendToken_Join)
  with None show ?thesis
    by (simp add: composeOptions_def credentialOptions_def finalUri_def)
next
  case (Some c)
  then have "stripUri (Uri c) \<noteq> []"
    by (auto simp: find_Some_iff)
  with Some show ?thesis
    by (simp add: composeOptions_def credentialOptions_def composeLoop_scan finalUri_def)
qed

lemma composeOptions_uri:
  "\<exists>options. composeOptions (map Some cs) credential = Some options
      \<and> options ''uri'' = Some (finalUri cs)"
  by (simp add: composeOptions_eq SetAsObject_def)

lemma composeOptions_nil_entry:
  "None \<in> set connections \<Longrightarrow> composeOptions connections credential = None"
  by (simp add: composeOptions_def composeLoop_nil_entry)

lemma finalUri_no_uri:
  assumes "\<forall>c\<in>set cs. Uri c = []"
  shows "finalUri cs = Join (map hostPort cs) '', ''"
proof -
  from assms have "\<forall>c\<in>set cs. stripUri (Uri c) = []"
    by (simp add: stripUri_Nil)
  then have "find (\<lambda>c. stripUri (Uri c) \<noteq> []) cs = None"
    by (simp add: find_None_iff)
  moreover from assms have "filter (\<lambda>c. Uri c = []) cs = cs"
    by simp
  ultimately show ?thesis
    by (simp add: finalUri_def)
qed

lemma find_stripped:
  "(case find (\<lambda>c. stripUri (Uri c) \<noteq> []) cs of None \<Rightarrow> d | Some c \<Rightarrow> stripUri (Uri c)) =
   (case find (\<lambda>u. u \<noteq> []) (map (\<lambda>c. stripUri (Uri c)) cs) of None \<Rightarrow> d | Some u \<Rightarrow> u)"
  by (induction cs) simp_all

lemma finalUri_all_uri:
  assumes "\<forall>c\<in>set cs. Uri c \<noteq> []"
  shows "finalUri cs =
    (case find (\<lambda>u. u \<noteq> []) (map (\<lambda>c. stripUri (Uri c)) cs) of None \<Rightarrow> [] | Some u \<Rightarrow> u)"
proof -
  from assms have "filter (\<lambda>c. Uri c = []) cs = []"
    by (simp add: filter_empty_conv)
  then have "finalUri cs =
    (case find (\<lambda>c. stripUri (Uri c) \<noteq> []) cs of None \<Rightarrow> [] | Some c \<Rightarrow> stripUri (Uri c))"
    by (simp add: finalUri_def split: option.splits)
  then show ?thesis by (simp only: find_stripped)
qed

lemma stripped_by_uris:
  "map Uri cs' = map Uri cs \<Longrightarrow>
   map (\<lambda>c. stripUri (Uri c)) cs' = map (\<lambda>c. stripUri (Uri c)) cs"
proof -
  assume "map Uri cs' = map Uri cs"
  then have "map stripUri (map Uri cs') = map stripUri (map Uri cs)" by simp
  then show ?thesis by (simp add: comp_def)
qed

lemma finalUri_split:
  assumes "\<forall>p\<in>set pre. stripUri (Uri p) = []" and "stripUri (Uri c) \<noteq> []"
  shows "finalUri (pre @ c # post) = stripUri (Uri c)"
proof -
  from assms have "find (\<lambda>c. stripUri (Uri c) \<noteq> []) (pre @ c # post) = Some c"
    by (intro find_first_split) auto
  then show ?thesis by (simp add: finalUri_def)
qed


section \<open>The validation loop\<close>

lemma validateConnection_nil: "validateConnection correlationId None \<noteq> None"
  by (simp add: validateConnection_def)

lemma validateConnections_None_iff:
  "validateConnections correlationId cs = None \<longleftrightarrow>
     (\<forall>c\<in>set cs. validateConnection correlationId c = None)"
  by (induction cs) (auto split: option.splits)

lemma validateConnections_first:
  "\<forall>p\<in>set pre. validateConnection correlationId p = None \<Longrightarrow>
   validateConnection correlationId x = Some err \<Longrightarrow>
   validateConnections correlationId (pre @ x # rest) = Some err"
  by (induction pre) auto

lemma valid_composes:
  assumes "validateConnections correlationId connections = None"
  shows "\<exists>options. composeOptions connections credential = Some options"
proof -
  have "c \<noteq> None" if "c \<in> set connections" for c
  proof
    assume "c = None"
    with that assms have "validateConnection correlationId None = None"
      by (auto simp: validateConnections_None_iff)
    then show False by (simp add: validateConnection_nil)
  qed
  then have "\<forall>c\<in>set connections. c \<noteq> None" by blast
  then have "connections = map Some (map the connections)"
    by (induction connections) auto
  then obtain cs where "connections = map Some cs" ..
  then show ?thesis by (simp add: composeOptions_eq)
qed


section \<open>Verified properties\<close>

lemmas accessor_defs =
  Uri_def Host_def ProtocolWithDefault_def PortWithDefault_def GetAsString_def
  GetAsStringWithDefault_def GetAsIntegerWithDefault_def ToNullableInteger_def digitValue_def

lemmas bundle_defs =
  SetDefaults_def SetAsObject_def NewEmptyConfigParams_def NewEmptyCredentialParams_def
  credentialOptions_def

lemmas text_defs =
  stripUri_def HasPrefix_def Itoa_def natToDecimal.simps digitChar_def hostPort_def

text \<open>
  Claim C1. \<open>validateConnection\<close> checks, in this order and stopping at the first check
  that fails: the connection is nil (\<open>NO_CONNECTION\<close>); it has a URI (valid, see C2);
  its protocol, \<open>tcp\<close> when unset, is empty (\<open>NO_PROTOCOL\<close>) or is not \<open>tcp\<close>
  (\<open>UNSUPPORTED_PROTOCOL\<close>, naming it, whatever host and port are); its host is empty
  (\<open>NO_HOST\<close>, whatever the port is, and never \<open>NO_PORT\<close>); its port, 9092 when unset,
  is zero (\<open>NO_PORT\<close>). The witness runs the connections of the claim: empty host and
  empty port, protocol \<open>udp\<close> with a good host and port, and port \<open>0\<close> with a good host.
\<close>

theorem validateConnection_order:
  "validateConnection correlationId None =
     Some (ConfigError correlationId ''NO_CONNECTION'' ''Kafka connection is not set'')
   \<and> (Uri c = [] \<and> ProtocolWithDefault c ''tcp'' = [] \<longrightarrow>
        validateConnection correlationId (Some c) =
          Some (ConfigError correlationId ''NO_PROTOCOL'' ''Connection protocol is not set''))
   \<and> (Uri c = [] \<and> ProtocolWithDefault c ''tcp'' \<noteq> [] \<and> ProtocolWithDefault c ''tcp'' \<noteq> ''tcp'' \<longrightarrow>
        validateConnection correlationId (Some c) =
          Some (ConfigError correlationId ''UNSUPPORTED_PROTOCOL''
                  (''The protocol '' @ ProtocolWithDefault c ''tcp'' @ '' is not supported'')))
   \<and> (Uri c = [] \<and> ProtocolWithDefault c ''tcp'' = ''tcp'' \<and> Host c = [] \<longrightarrow>
        validateConnection correlationId (Some c) =
          Some (ConfigError correlationId ''NO_HOST'' ''Connection host is not set''))
   \<and> (Uri c = [] \<and> Host c = [] \<longrightarrow>
        (\<forall>cid msg. validateConnection correlationId (Some c) \<noteq> Some (ConfigError cid ''NO_PORT'' msg)))
   \<and> (Uri c = [] \<and> ProtocolWithDefault c ''tcp'' = ''tcp'' \<and> Host c \<noteq> []
        \<and> PortWithDefault c 9092 = 0 \<longrightarrow>
        validateConnection correlationId (Some c) =
          Some (ConfigError correlationId ''NO_PORT'' ''Connection port is not set''))
   \<and> (Uri c = [] \<and> ProtocolWithDefault c ''tcp'' = ''tcp'' \<and> Host c \<noteq> []
        \<and> PortWithDefault c 9092 \<noteq> 0 \<longrightarrow>
        validateConnection correlationId (Some c) = None)"
  by (simp add: validateConnection_def NewConfigError_def Let_def)

theorem validateConnection_order_witness:
  "Uri [''host'' \<mapsto> [], ''port'' \<mapsto> []] = []
   \<and> Host [''host'' \<mapsto> [], ''port'' \<mapsto> []] = []
   \<and> validateConnection ''id'' (Some [''host'' \<mapsto> [], ''port'' \<mapsto> []]) =
       Some (ConfigError ''id'' ''NO_HOST'' ''Connection host is not set'')
   \<and> validateConnection ''id'' (Some Map.empty) =
       Some (ConfigError ''id'' ''NO_HOST'' ''Connection host is not set'')
   \<and> validateConnection ''id''
         (Some [''protocol'' \<mapsto> ''udp'', ''host'' \<mapsto> ''kafka1'', ''port'' \<mapsto> ''9092'']) =
       Some (ConfigError ''id'' ''UNSUPPORTED_PROTOCOL'' ''The protocol udp is not supported'')
   \<and> validateConnection ''id'' (Some [''protocol'' \<mapsto> [], ''host'' \<mapsto> ''kafka1'']) =
       Some (ConfigError ''id'' ''NO_PROTOCOL'' ''Connection protocol is not set'')
   \<and> validateConnection ''id'' (Some [''host'' \<mapsto> ''kafka1'', ''port'' \<mapsto> ''0'']) =
       Some (ConfigError ''id'' ''NO_PORT'' ''Connection port is not set'')
   \<and> validateConnection ''id'' (Some [''host'' \<mapsto> ''kafka1'']) = None"
  using validateConnection_order [of "''id''" "[''host'' \<mapsto> [], ''port'' \<mapsto> []]"]
    validateConnection_order [of "''id''" "Map.empty"]
    validateConnection_order [of "''id''"
      "[''protocol'' \<mapsto> ''udp'', ''host'' \<mapsto> ''kafka1'', ''port'' \<mapsto> ''9092'']"]
    validateConnection_order [of "''id''" "[''protocol'' \<mapsto> [], ''host'' \<mapsto> ''kafka1'']"]
    validateConnection_order [of "''id''" "[''host'' \<mapsto> ''kafka1'', ''port'' \<mapsto> ''0'']"]
    validateConnection_order [of "''id''" "[''host'' \<mapsto> ''kafka1'']"]
  by (simp add: accessor_defs)

text \<open>
  Claim C2. A connection with a non-empty URI is valid, and stays valid whatever is
  stored, or not stored, under its keys \<open>protocol\<close>, \<open>host\<close> and \<open>port\<close>.
\<close>

theorem validateConnection_uri_bypass:
  "Uri c \<noteq> [] \<Longrightarrow>
     validateConnection correlationId (Some c) = None
     \<and> validateConnection correlationId
          (Some (c(''protocol'' := protocol, ''host'' := host, ''port'' := port))) = None"
  by (simp add: validateConnection_def Uri_def GetAsString_def)

theorem validateConnection_uri_bypass_witness:
  "Uri [''uri'' \<mapsto> ''tcp://broker:9092''] \<noteq> []
   \<and> validateConnection ''id'' (Some [''uri'' \<mapsto> ''tcp://broker:9092'']) = None
   \<and> validateConnection ''id''
        (Some ([''uri'' \<mapsto> ''tcp://broker:9092'']
                 (''protocol'' := Some ''udp'', ''host'' := None, ''port'' := Some ''0''))) = None"
proof -
  have h: "Uri [''uri'' \<mapsto> ''tcp://broker:9092''] \<noteq> []"
    by (simp add: Uri_def GetAsString_def)
  show ?thesis
    using h validateConnection_uri_bypass [OF h, of "''id''" "Some ''udp''" None "Some ''0''"]
    by simp
qed

text \<open>
  Claim C3 does not hold as stated. The only connection has the URI \<open>://kafka1:9092\<close>.
  Removing the text up to and including the first \<open>://\<close> would give
  \<open>kafka1:9092\<close>; the code finds the marker at index 0, which its guard \<open>pos > 0\<close>
  lets pass, and the \<open>uri\<close> of the options is the URI unchanged.
\<close>

theorem scheme_at_index_zero_counterexample:
  "composeOptions [Some [''uri'' \<mapsto> ''://kafka1:9092'']] None
     = Some [''uri'' \<mapsto> ''://kafka1:9092'']
   \<and> stripSchemeAndQuery (Uri [''uri'' \<mapsto> ''://kafka1:9092'']) = ''kafka1:9092''"
  by (simp add: composeOptions_def accessor_defs bundle_defs text_defs stripSchemeAndQuery_def)

text \<open>
  Claim C3, amended. For a non-empty list of connections that all have a URI, the \<open>uri\<close>
  of the options is the first non-empty one among the rewritten URIs of the connections,
  in list order, and the empty string when all are empty; \<open>stripUri\<close> rewrites a URI by
  dropping the text up to and including the first \<open>://\<close> when that is found at a
  positive index, then the text from the first \<open>?\<close> of what is left when that is found
  at a positive index. So it is the rewritten URI of the first connection whenever that
  is not empty. Any list with the same URIs, with any credential, gives the same \<open>uri\<close>:
  ports and all other fields have no influence. The witness is the scenario
  \<open>tcp://broker:9092?x=1\<close>, which gives \<open>broker:9092\<close>.
\<close>

theorem composeOptions_first_uri:
  "cs \<noteq> [] \<and> (\<forall>c\<in>set cs. Uri c \<noteq> []) \<longrightarrow>
     (\<exists>options. composeOptions (map Some cs) credential = Some options
        \<and> options ''uri'' =
            Some (case find (\<lambda>u. u \<noteq> []) (map (\<lambda>c. stripUri (Uri c)) cs) of
                    None \<Rightarrow> [] | Some u \<Rightarrow> u)
        \<and> (stripUri (Uri (hd cs)) \<noteq> [] \<longrightarrow> options ''uri'' = Some (stripUri (Uri (hd cs))))
        \<and> (\<forall>cs' credential'. map Uri cs' = map Uri cs \<longrightarrow>
              (\<exists>options'. composeOptions (map Some cs') credential' = Some options'
                  \<and> options' ''uri'' = options ''uri'')))"
proof
  assume a: "cs \<noteq> [] \<and> (\<forall>c\<in>set cs. Uri c \<noteq> [])"
  let ?v = "case find (\<lambda>u. u \<noteq> []) (map (\<lambda>c. stripUri (Uri c)) cs) of
              None \<Rightarrow> [] | Some u \<Rightarrow> u"
  from a have fu: "finalUri cs = ?v" by (simp add: finalUri_all_uri)
  from composeOptions_uri [of cs credential] obtain options
    where o: "composeOptions (map Some cs) credential = Some options"
      and u: "options ''uri'' = Some (finalUri cs)" by blast
  from a obtain c0 rest where cs: "cs = c0 # rest" by (cases cs) auto
  have first: "stripUri (Uri (hd cs)) \<noteq> [] \<longrightarrow> options ''uri'' = Some (stripUri (Uri (hd cs)))"
    using u fu cs by simp
  have others: "\<exists>options'. composeOptions (map Some cs') credential' = Some options'
                  \<and> options' ''uri'' = options ''uri''"
    if eq: "map Uri cs' = map Uri cs" for cs' credential'
  proof -
    have "Uri c \<noteq> []" if "c \<in> set cs'" for c
    proof -
      from that have "Uri c \<in> set (map Uri cs')" by simp
      with eq have "Uri c \<in> set (map Uri cs)" by simp
      with a show ?thesis by auto
    qed
    then have "\<forall>c\<in>set cs'. Uri c \<noteq> []" by blast
    then have "finalUri cs' =
      (case find (\<lambda>u. u \<noteq> []) (map (\<lambda>c. stripUri (Uri c)) cs') of None \<Rightarrow> [] | Some u \<Rightarrow> u)"
      by (rule finalUri_all_uri)
    also have "\<dots> = ?v" by (simp only: stripped_by_uris [OF eq])
    finally have "finalUri cs' = finalUri cs" using fu by simp
    with composeOptions_uri [of cs' credential'] u show ?thesis by simp
  qed
  from o u fu first others
  show "\<exists>options. composeOptions (map Some cs) credential = Some options
        \<and> options ''uri'' = Some ?v
        \<and> (stripUri (Uri (hd cs)) \<noteq> [] \<longrightarrow> options ''uri'' = Some (stripUri (Uri (hd cs))))
        \<and> (\<forall>cs' credential'. map Uri cs' = map Uri cs \<longrightarrow>
              (\<exists>options'. composeOptions (map Some cs') credential' = Some options'
                  \<and> options' ''uri'' = options ''uri''))"
    by auto
qed

theorem composeOptions_first_uri_witness:
  "[[''uri'' \<mapsto> ''tcp://broker:9092?x=1'']] \<noteq> []
   \<and> Uri [''uri'' \<mapsto> ''tcp://broker:9092?x=1''] \<noteq> []
   \<and> (\<exists>options. composeOptions [Some [''uri'' \<mapsto> ''tcp://broker:9092?x=1'']] None = Some options
        \<and> options ''uri'' = Some ''broker:9092'')"
proof -
  have s: "stripUri ''tcp://broker:9092?x=1'' = ''broker:9092''"
    by (simp add: text_defs)
  have u: "Uri [''uri'' \<mapsto> ''tcp://broker:9092?x=1''] = ''tcp://broker:9092?x=1''"
    by (simp add: accessor_defs)
  show ?thesis
    using composeOptions_first_uri [of "[[''uri'' \<mapsto> ''tcp://broker:9092?x=1'']]" None]
    by (auto simp: s u)
qed

text \<open>
  Claim C4. For a list of connections none of which has a URI, the \<open>uri\<close> of the options
  is the \<open>host:port\<close> tokens of the connections in list order, joined by a comma and a
  space; the port of a connection with no \<open>port\<close> key reads 9092. For the empty list
  and a nil credential the options are just \<open>uri\<close> with the empty string, and
  \<open>Compose\<close> returns them with a nil error. (The connections are non-nil, as they are
  after validation; \<open>composeOptions_nil_entry\<close> says what a nil entry does.)
\<close>

theorem composeOptions_host_port_list:
  "((\<forall>c\<in>set cs. Uri c = []) \<longrightarrow>
     (\<exists>options. composeOptions (map Some cs) credential = Some options
        \<and> options ''uri'' = Some (Join (map hostPort cs) '', '')))
   \<and> (c ''port'' = None \<longrightarrow> hostPort c = Host c @ '':9092'')
   \<and> composeOptions [] None = Some [''uri'' \<mapsto> []]
   \<and> Compose correlationId [] None = Some (Some [''uri'' \<mapsto> []], None)"
proof (intro conjI impI)
  assume "\<forall>c\<in>set cs. Uri c = []"
  then have "finalUri cs = Join (map hostPort cs) '', ''"
    by (rule finalUri_no_uri)
  with composeOptions_uri [of cs credential]
  show "\<exists>options. composeOptions (map Some cs) credential = Some options
        \<and> options ''uri'' = Some (Join (map hostPort cs) '', '')"
    by simp
next
  assume "c ''port'' = None"
  then show "hostPort c = Host c @ '':9092''"
    by (simp add: hostPort_def PortWithDefault_def GetAsIntegerWithDefault_def
        Itoa_def natToDecimal.simps digitChar_def)
next
  show e: "composeOptions [] None = Some [''uri'' \<mapsto> []]"
    by (simp add: composeOptions_def bundle_defs)
  then show "Compose correlationId [] None = Some (Some [''uri'' \<mapsto> []], None)"
    by (simp add: Compose_def)
qed

theorem composeOptions_host_port_list_witness:
  "Uri [''host'' \<mapsto> ''kafka1''] = []
   \<and> Uri [''host'' \<mapsto> ''kafka2'', ''port'' \<mapsto> ''9093''] = []
   \<and> (\<exists>options.
         composeOptions
           [Some [''host'' \<mapsto> ''kafka1''], Some [''host'' \<mapsto> ''kafka2'', ''port'' \<mapsto> ''9093'']]
           None = Some options
         \<and> options ''uri'' = Some ''kafka1:9092, kafka2:9093'')
   \<and> hostPort [''host'' \<mapsto> ''kafka1''] = ''kafka1:9092''"
  using composeOptions_host_port_list
    [of "[[''host'' \<mapsto> ''kafka1''], [''host'' \<mapsto> ''kafka2'', ''port'' \<mapsto> ''9093'']]"
        None "[''host'' \<mapsto> ''kafka1'']"]
  by (simp add: accessor_defs text_defs)

text \<open>
  Claim C5. Let \<open>c\<close> be the connection that sets the global URI: its rewritten URI is
  not empty, and no connection of \<open>pre\<close>, the ones before it, has one. When the loop
  ends, the string builder holds the tokens of the connections of \<open>pre\<close> without a URI
  and nothing of \<open>post\<close>, the connections after \<open>c\<close>; the global URI is the rewritten
  URI of \<open>c\<close> whatever \<open>post\<close> holds; and the options have been given the defaults of
  every connection, those of \<open>post\<close> included. In the result the builder is dropped:
  \<open>uri\<close> is the global URI, every other key is as merged, and every key of a
  connection of \<open>post\<close> is present.
\<close>

theorem composeOptions_mixed_list:
  "(\<forall>p\<in>set pre. stripUri (Uri p) = []) \<and> stripUri (Uri c) \<noteq> [] \<longrightarrow>
     composeLoop (map Some (pre @ c # post)) options [] [] =
       Some (foldl SetDefaults options (pre @ c # post),
             stripUri (Uri c),
             Join (map hostPort (filter (\<lambda>p. Uri p = []) pre)) '', '')
     \<and> (\<exists>out. composeOptions (map Some (pre @ c # post)) credential = Some out
          \<and> out ''uri'' = Some (stripUri (Uri c))
          \<and> (\<forall>k. k \<noteq> ''uri'' \<longrightarrow>
                out k = foldl SetDefaults (credentialOptions credential) (pre @ c # post) k)
          \<and> (\<forall>p\<in>set post. dom p \<subseteq> dom out))"
proof (intro impI conjI)
  assume a: "(\<forall>p\<in>set pre. stripUri (Uri p) = []) \<and> stripUri (Uri c) \<noteq> []"
  then have f: "find (\<lambda>c. stripUri (Uri c) \<noteq> []) (pre @ c # post) = Some c"
    by (intro find_first_split) auto
  from a have t: "takeWhile (\<lambda>c. stripUri (Uri c) = []) (pre @ c # post) = pre"
    by (intro takeWhile_first_split) auto
  show "composeLoop (map Some (pre @ c # post)) options [] [] =
       Some (foldl SetDefaults options (pre @ c # post),
             stripUri (Uri c),
             Join (map hostPort (filter (\<lambda>p. Uri p = []) pre)) '', '')"
    unfolding composeLoop_scan f t by (simp add: foldl_appendToken_Join)
  let ?merged = "foldl SetDefaults (credentialOptions credential) (pre @ c # post)"
  let ?out = "SetAsObject ?merged ''uri'' (stripUri (Uri c))"
  from a have "finalUri (pre @ c # post) = stripUri (Uri c)"
    by (intro finalUri_split) auto
  then have out: "composeOptions (map Some (pre @ c # post)) credential = Some ?out"
    by (simp only: composeOptions_eq)
  have "dom p \<subseteq> dom ?out" if "p \<in> set post" for p
    using that by (auto simp: SetAsObject_def dom_foldl_SetDefaults)
  with out show "\<exists>out. composeOptions (map Some (pre @ c # post)) credential = Some out
          \<and> out ''uri'' = Some (stripUri (Uri c))
          \<and> (\<forall>k. k \<noteq> ''uri'' \<longrightarrow> out k = ?merged k)
          \<and> (\<forall>p\<in>set post. dom p \<subseteq> dom out)"
    by (simp add: SetAsObject_def)
qed

theorem composeOptions_mixed_list_witness:
  "stripUri (Uri [''host'' \<mapsto> ''kafka1'']) = []
   \<and> stripUri (Uri [''uri'' \<mapsto> ''tcp://broker:9092'']) = ''broker:9092''
   \<and> (\<exists>merged.
         composeLoop
           [Some [''host'' \<mapsto> ''kafka1''], Some [''uri'' \<mapsto> ''tcp://broker:9092''],
            Some [''host'' \<mapsto> ''kafka3'', ''port'' \<mapsto> ''9094''],
            Some [''uri'' \<mapsto> ''tcp://other:1'']] Map.empty [] [] =
           Some (merged, ''broker:9092'', ''kafka1:9092''))
   \<and> (\<exists>out.
         composeOptions
           [Some [''host'' \<mapsto> ''kafka1''], Some [''uri'' \<mapsto> ''tcp://broker:9092''],
            Some [''host'' \<mapsto> ''kafka3'', ''port'' \<mapsto> ''9094''],
            Some [''uri'' \<mapsto> ''tcp://other:1'']] None = Some out
         \<and> out ''uri'' = Some ''broker:9092''
         \<and> out ''host'' = Some ''kafka1''
         \<and> out ''port'' = Some ''9094'')"
proof -
  let ?pre = "[[''host'' \<mapsto> ''kafka1'']]"
  let ?c = "[''uri'' \<mapsto> ''tcp://broker:9092'']"
  let ?post = "[[''host'' \<mapsto> ''kafka3'', ''port'' \<mapsto> ''9094''], [''uri'' \<mapsto> ''tcp://other:1'']]"
  have s: "stripUri (Uri ?c) = ''broker:9092''"
    by (simp add: accessor_defs text_defs)
  have p: "\<forall>p\<in>set ?pre. stripUri (Uri p) = []"
    by (simp add: accessor_defs text_defs)
  have hyp: "(\<forall>p\<in>set ?pre. stripUri (Uri p) = []) \<and> stripUri (Uri ?c) \<noteq> []"
    using s p by simp
  note mixed = composeOptions_mixed_list [of ?pre ?c ?post, THEN mp, OF hyp]
  from mixed [of Map.empty None]
  have loop: "\<exists>merged. composeLoop (map Some (?pre @ ?c # ?post)) Map.empty [] [] =
      Some (merged, ''broker:9092'', ''kafka1:9092'')"
    by (simp add: accessor_defs text_defs)
  from mixed [of Map.empty None] obtain out
    where o: "composeOptions (map Some (?pre @ ?c # ?post)) None = Some out"
      and u: "out ''uri'' = Some (stripUri (Uri ?c))"
      and k: "\<forall>k. k \<noteq> ''uri'' \<longrightarrow>
                out k = foldl SetDefaults (credentialOptions None) (?pre @ ?c # ?post) k"
    by blast
  from k have "out ''host'' = Some ''kafka1''" and "out ''port'' = Some ''9094''"
    by (simp_all add: bundle_defs)
  with o u s have "\<exists>out. composeOptions (map Some (?pre @ ?c # ?post)) None = Some out
         \<and> out ''uri'' = Some ''broker:9092''
         \<and> out ''host'' = Some ''kafka1''
         \<and> out ''port'' = Some ''9094''"
    by simp
  with loop s p show ?thesis by simp
qed

text \<open>
  Claim C6. When the two sub-resolvers return a connection list and a credential
  without error, \<open>Compose\<close> on that list and credential returns what \<open>Resolve\<close> returns.
\<close>

theorem Compose_refines_Resolve:
  "ResolveAll c correlationId = (connections, None) \<Longrightarrow>
   Lookup c correlationId = (credential, None) \<Longrightarrow>
   Compose correlationId connections credential = Resolve c correlationId"
  by (simp add: Resolve_def Compose_def)

theorem Compose_refines_Resolve_witness:
  "Compose ''id'' [Some [''host'' \<mapsto> ''kafka1'']] None =
     Resolve \<lparr>ResolveAll = (\<lambda>_. ([Some [''host'' \<mapsto> ''kafka1'']], None)),
              Lookup = (\<lambda>_. (None, None))\<rparr> ''id''"
  using Compose_refines_Resolve
    [of "\<lparr>ResolveAll = (\<lambda>_. ([Some [''host'' \<mapsto> ''kafka1'']], None)),
          Lookup = (\<lambda>_. (None, None))\<rparr>" "''id''" "[Some [''host'' \<mapsto> ''kafka1'']]" None]
  by simp

text \<open>
  Claim C7. \<open>Compose\<close> and \<open>Resolve\<close> always return (neither panics), and what they
  return is either options with a nil error or nil options with an error. When the
  connections before \<open>x\<close> are valid and \<open>x\<close> is not, the error returned is the one of
  \<open>x\<close>, whatever follows \<open>x\<close> in the list.
\<close>

theorem Resolve_Compose_all_or_nothing:
  "((\<exists>options. Compose correlationId connections credential = Some (Some options, None))
      \<or> (\<exists>err. Compose correlationId connections credential = Some (None, Some err)))
   \<and> ((\<exists>options. Resolve c correlationId = Some (Some options, None))
      \<or> (\<exists>err. Resolve c correlationId = Some (None, Some err)))
   \<and> ((\<forall>p\<in>set pre. validateConnection correlationId p = None)
        \<and> validateConnection correlationId x = Some err \<longrightarrow>
        Compose correlationId (pre @ x # rest) credential = Some (None, Some err)
        \<and> (ResolveAll c correlationId = (pre @ x # rest, None)
             \<and> Lookup c correlationId = (credential, None) \<longrightarrow>
             Resolve c correlationId = Some (None, Some err)))"
proof (intro conjI impI)
  show "(\<exists>options. Compose correlationId connections credential = Some (Some options, None))
      \<or> (\<exists>err. Compose correlationId connections credential = Some (None, Some err))"
  proof (cases "validateConnections correlationId connections")
    case None
    from valid_composes [OF this] obtain options
      where "composeOptions connections credential = Some options" ..
    with None show ?thesis by (simp add: Compose_def)
  next
    case (Some err)
    then show ?thesis by (simp add: Compose_def)
  qed
next
  obtain conns e1 where ra: "ResolveAll c correlationId = (conns, e1)"
    by (cases "ResolveAll c correlationId")
  obtain cred e2 where lk: "Lookup c correlationId = (cred, e2)"
    by (cases "Lookup c correlationId")
  show "(\<exists>options. Resolve c correlationId = Some (Some options, None))
      \<or> (\<exists>err. Resolve c correlationId = Some (None, Some err))"
  proof (cases e1)
    case (Some err)
    with ra show ?thesis by (simp add: Resolve_def)
  next
    case e1: None
    show ?thesis
    proof (cases e2)
      case (Some err)
      with ra lk e1 show ?thesis by (simp add: Resolve_def)
    next
      case e2: None
      show ?thesis
      proof (cases "validateConnections correlationId conns")
        case None
        from valid_composes [OF this] obtain options
          where "composeOptions conns cred = Some options" ..
        with None ra lk e1 e2 show ?thesis by (simp add: Resolve_def)
      next
        case (Some err)
        with ra lk e1 e2 show ?thesis by (simp add: Resolve_def)
      qed
    qed
  qed
next
  assume a: "(\<forall>p\<in>set pre. validateConnection correlationId p = None)
        \<and> validateConnection correlationId x = Some err"
  then have v: "validateConnections correlationId (pre @ x # rest) = Some err"
    by (simp add: validateConnections_first)
  then show "Compose correlationId (pre @ x # rest) credential = Some (None, Some err)"
    by (simp add: Compose_def)
  assume "ResolveAll c correlationId = (pre @ x # rest, None)
             \<and> Lookup c correlationId = (credential, None)"
  with v show "Resolve c correlationId = Some (None, Some err)"
    by (simp add: Resolve_def)
qed

theorem Resolve_Compose_all_or_nothing_witness:
  "validateConnection ''id'' (Some [''host'' \<mapsto> ''kafka1'']) = None
   \<and> validateConnection ''id'' (Some [''port'' \<mapsto> ''9092'']) =
       Some (ConfigError ''id'' ''NO_HOST'' ''Connection host is not set'')
   \<and> Compose ''id''
        [Some [''host'' \<mapsto> ''kafka1''], Some [''port'' \<mapsto> ''9092''], None,
         Some [''protocol'' \<mapsto> ''udp'']] None =
       Some (None, Some (ConfigError ''id'' ''NO_HOST'' ''Connection host is not set''))
   \<and> Resolve \<lparr>ResolveAll = (\<lambda>_. ([Some [''host'' \<mapsto> ''kafka1''], Some [''port'' \<mapsto> ''9092''], None,
                                    Some [''protocol'' \<mapsto> ''udp'']], None)),
               Lookup = (\<lambda>_. (None, None))\<rparr> ''id'' =
       Some (None, Some (ConfigError ''id'' ''NO_HOST'' ''Connection host is not set''))"
  using Resolve_Compose_all_or_nothing
    [of "''id''" _ None
        "\<lparr>ResolveAll = (\<lambda>_. ([Some [''host'' \<mapsto> ''kafka1''], Some [''port'' \<mapsto> ''9092''], None,
                                Some [''protocol'' \<mapsto> ''udp'']], None)),
           Lookup = (\<lambda>_. (None, None))\<rparr>"
        "[Some [''host'' \<mapsto> ''kafka1'']]" "Some [''port'' \<mapsto> ''9092'']"
        "ConfigError ''id'' ''NO_HOST'' ''Connection host is not set''"
        "[None, Some [''protocol'' \<mapsto> ''udp'']]"]
  by (simp add: validateConnection_def NewConfigError_def accessor_defs)

text \<open>
  Claim C8 does not hold as stated. The first connection has a host and no URI, the
  second has the URI \<open>tcp://broker:9092\<close>. The \<open>uri\<close> of the options is
  \<open>broker:9092\<close>, from the second connection: it is neither the URI of the first
  connection, which is empty, nor the \<open>host:port\<close> list, which is \<open>kafka1:9092\<close>.
\<close>

theorem mixed_list_uri_counterexample:
  "composeOptions
     [Some [''host'' \<mapsto> ''kafka1''], Some [''uri'' \<mapsto> ''tcp://broker:9092'']] None
     = Some [''host'' \<mapsto> ''kafka1'', ''uri'' \<mapsto> ''broker:9092'']
   \<and> stripSchemeAndQuery (Uri [''host'' \<mapsto> ''kafka1'']) = []
   \<and> Join (map hostPort [[''host'' \<mapsto> ''kafka1'']]) '', '' = ''kafka1:9092''"
  by (simp add: composeOptions_def accessor_defs bundle_defs text_defs stripSchemeAndQuery_def)

text \<open>
  Claim C8, amended. For every list of connections and every credential, nil or not,
  \<open>composeOptions\<close> returns options that have the key \<open>uri\<close>, and its value is
  \<open>finalUri\<close> of the connections: the rewritten URI of the first connection whose
  rewritten URI is not empty, which need not be the first connection of the list, or,
  when there is none, the joined \<open>host:port\<close> tokens of the connections without a URI.
  The value is stored last, so a \<open>uri\<close> key of the credential or of a connection never
  survives in its place, as the witness shows.
\<close>

theorem composeOptions_uri_always:
  "\<exists>options. composeOptions (map Some cs) credential = Some options
      \<and> options ''uri'' = Some (finalUri cs)
      \<and> ((\<exists>c\<in>set cs. Uri c \<noteq> [] \<and> finalUri cs = stripUri (Uri c))
          \<or> finalUri cs = Join (map hostPort (filter (\<lambda>c. Uri c = []) cs)) '', '')"
proof -
  have "(\<exists>c\<in>set cs. Uri c \<noteq> [] \<and> finalUri cs = stripUri (Uri c))
          \<or> finalUri cs = Join (map hostPort (filter (\<lambda>c. Uri c = []) cs)) '', ''"
  proof (cases "find (\<lambda>c. stripUri (Uri c) \<noteq> []) cs")
    case None
    then show ?thesis by (simp add: finalUri_def)
  next
    case (Some c)
    then have "c \<in> set cs" and ne: "stripUri (Uri c) \<noteq> []"
      by (auto simp: find_Some_iff)
    moreover from ne have "Uri c \<noteq> []"
      by (auto simp: stripUri_Nil)
    moreover from Some have "finalUri cs = stripUri (Uri c)"
      by (simp add: finalUri_def)
    ultimately show ?thesis by blast
  qed
  with composeOptions_uri [of cs credential] show ?thesis by blast
qed

theorem composeOptions_uri_always_witness:
  "(\<exists>options.
      composeOptions [Some [''host'' \<mapsto> ''kafka1'']] (Some [''uri'' \<mapsto> ''tcp://other:1''])
        = Some options
      \<and> options ''uri'' = Some ''kafka1:9092'')
   \<and> (\<exists>options. composeOptions [] None = Some options \<and> options ''uri'' = Some [])"
  using composeOptions_uri_always [of "[[''host'' \<mapsto> ''kafka1'']]" "Some [''uri'' \<mapsto> ''tcp://other:1'']"]
    composeOptions_uri_always [of "[]" None]
  by (simp add: finalUri_def accessor_defs text_defs)

text \<open>
  Claim C9. Two brokers \<open>kafka1:9092\<close> and \<open>kafka2:9093\<close> with the credential
  \<open>u\<close>/\<open>p\<close>: the options hold the credential, host and port of the first connection,
  and both brokers under \<open>uri\<close>.
\<close>

theorem composeOptions_two_brokers:
  "composeOptions
     [Some [''host'' \<mapsto> ''kafka1'', ''port'' \<mapsto> ''9092''],
      Some [''host'' \<mapsto> ''kafka2'', ''port'' \<mapsto> ''9093'']]
     (Some [''username'' \<mapsto> ''u'', ''password'' \<mapsto> ''p'']) =
   Some [''username'' \<mapsto> ''u'', ''password'' \<mapsto> ''p'', ''host'' \<mapsto> ''kafka1'',
         ''port'' \<mapsto> ''9092'', ''uri'' \<mapsto> ''kafka1:9092, kafka2:9093'']"
  apply (simp add: composeOptions_def accessor_defs bundle_defs text_defs)
  apply (rule ext)
  apply simp
  done

text \<open>
  Claim C10 does not hold as stated. The URI \<open>?a://b\<close> begins with \<open>?\<close>, but \<open>://\<close>
  is found at index 2, so the text up to it, the leading \<open>?\<close> included, is dropped: the
  global URI is \<open>b\<close>.
\<close>

theorem query_before_scheme_counterexample:
  "HasPrefix (Uri [''uri'' \<mapsto> ''?a://b'']) ''?''
   \<and> composeOptions [Some [''uri'' \<mapsto> ''?a://b'']] None = Some [''uri'' \<mapsto> ''b'']
   \<and> \<not> HasPrefix ''b'' ''?''"
  by (simp add: composeOptions_def accessor_defs bundle_defs text_defs)

text \<open>
  Claim C10, amended. A URI in which \<open>://\<close> is not found at a positive index loses no
  scheme, and one in which neither marker is found at a positive index is kept as it is.
  A URI that begins with \<open>://\<close> keeps that prefix; a URI that begins with \<open>?\<close> and
  does not contain \<open>://\<close> is kept whole. When the first connection has such a URI, it
  is the \<open>uri\<close> of the options, rewritten so. The witness runs \<open>://broker:9092\<close>
  and \<open>?x=1\<close>.
\<close>

theorem stripUri_marker_at_zero:
  "(Index uri ''://'' \<le> 0 \<longrightarrow>
      stripUri uri = (if Index uri ''?'' > 0 then take (nat (Index uri ''?'')) uri else uri))
   \<and> (Index uri ''://'' \<le> 0 \<and> Index uri ''?'' \<le> 0 \<longrightarrow> stripUri uri = uri)
   \<and> (HasPrefix uri ''://'' \<longrightarrow> HasPrefix (stripUri uri) ''://'')
   \<and> (HasPrefix uri ''?'' \<and> Index uri ''://'' < 0 \<longrightarrow> stripUri uri = uri)
   \<and> (HasPrefix (Uri c) ''://'' \<or> (HasPrefix (Uri c) ''?'' \<and> Index (Uri c) ''://'' < 0) \<longrightarrow>
        (\<exists>options. composeOptions (map Some (c # cs)) credential = Some options
           \<and> options ''uri'' = Some (stripUri (Uri c))))"
proof (intro conjI impI)
  assume "Index uri ''://'' \<le> 0"
  then show "stripUri uri = (if Index uri ''?'' > 0 then take (nat (Index uri ''?'')) uri else uri)"
    by (rule stripUri_no_scheme)
next
  assume "Index uri ''://'' \<le> 0 \<and> Index uri ''?'' \<le> 0"
  then show "stripUri uri = uri" by (simp add: stripUri_no_scheme)
next
  assume "HasPrefix uri ''://''"
  then show "HasPrefix (stripUri uri) ''://''" by (rule stripUri_keeps_marker)
next
  assume "HasPrefix uri ''?'' \<and> Index uri ''://'' < 0"
  then show "stripUri uri = uri" by (simp add: stripUri_query_first)
next
  assume a: "HasPrefix (Uri c) ''://'' \<or> (HasPrefix (Uri c) ''?'' \<and> Index (Uri c) ''://'' < 0)"
  have "stripUri (Uri c) \<noteq> []"
  proof (rule disjE [OF a])
    assume "HasPrefix (Uri c) ''://''"
    then have "HasPrefix (stripUri (Uri c)) ''://''" by (rule stripUri_keeps_marker)
    then show ?thesis by (rule HasPrefix_nonempty) simp
  next
    assume b: "HasPrefix (Uri c) ''?'' \<and> Index (Uri c) ''://'' < 0"
    then have "stripUri (Uri c) = Uri c" by (simp add: stripUri_query_first)
    moreover from b have "Uri c \<noteq> []" by (auto dest: HasPrefix_nonempty)
    ultimately show ?thesis by simp
  qed
  then have "finalUri (c # cs) = stripUri (Uri c)"
    by (simp add: finalUri_def)
  with composeOptions_uri [of "c # cs" credential]
  show "\<exists>options. composeOptions (map Some (c # cs)) credential = Some options
           \<and> options ''uri'' = Some (stripUri (Uri c))"
    by simp
qed

theorem stripUri_marker_at_zero_witness:
  "HasPrefix ''://broker:9092'' ''://''
   \<and> Index ''://broker:9092'' ''://'' \<le> 0
   \<and> stripUri ''://broker:9092'' = ''://broker:9092''
   \<and> HasPrefix ''?x=1'' ''?'' \<and> Index ''?x=1'' ''://'' < 0
   \<and> stripUri ''?x=1'' = ''?x=1''
   \<and> (\<exists>options. composeOptions [Some [''uri'' \<mapsto> ''://broker:9092'']] None = Some options
         \<and> options ''uri'' = Some ''://broker:9092'')
   \<and> (\<exists>options. composeOptions [Some [''uri'' \<mapsto> ''?x=1'']] None = Some options
         \<and> options ''uri'' = Some ''?x=1'')"
proof -
  have u1: "Uri [''uri'' \<mapsto> ''://broker:9092''] = ''://broker:9092''"
    and u2: "Uri [''uri'' \<mapsto> ''?x=1''] = ''?x=1''"
    by (simp_all add: accessor_defs)
  have h1: "HasPrefix ''://broker:9092'' ''://''" and i1: "Index ''://broker:9092'' ''://'' \<le> 0"
    and h2: "HasPrefix ''?x=1'' ''?''" and i2: "Index ''?x=1'' ''://'' < 0"
    and i3: "Index ''://broker:9092'' ''?'' \<le> 0"
    by (simp_all add: HasPrefix_def)
  note a = stripUri_marker_at_zero [of "''://broker:9092''" "[''uri'' \<mapsto> ''://broker:9092'']" "[]" None]
  note b = stripUri_marker_at_zero [of "''?x=1''" "[''uri'' \<mapsto> ''?x=1'']" "[]" None]
  from a i1 i3 have s1: "stripUri ''://broker:9092'' = ''://broker:9092''" by blast
  from b h2 i2 have s2: "stripUri ''?x=1'' = ''?x=1''" by blast
  from a h1 u1 s1 have c1: "\<exists>options. composeOptions [Some [''uri'' \<mapsto> ''://broker:9092'']] None = Some options
         \<and> options ''uri'' = Some ''://broker:9092''"
    by simp
  from b h2 i2 u2 s2 have c2: "\<exists>options. composeOptions [Some [''uri'' \<mapsto> ''?x=1'']] None = Some options
         \<and> options ''uri'' = Some ''?x=1''"
    by simp
  from h1 i1 s1 h2 i2 s2 c1 c2 show ?thesis by blast
qed

end
